theory Spec2Isabelle
  imports Main "HOL-Library.Word"
begin

unbundle bit_operations_syntax

chapter \<open>The Detectify provider's authenticating transport\<close>

text \<open>
  A shallow embedding of \<^verbatim>\<open>internal/provider/provider.go\<close>: the provider's
  \<^verbatim>\<open>Configure\<close>, the \<^verbatim>\<open>transport\<close> it installs, \<^verbatim>\<open>transport.RoundTrip\<close> and
  \<^verbatim>\<open>CalculateSignature\<close>. The Go standard library the code calls (encoding/base64,
  crypto/sha256, crypto/hmac, strconv, fmt, net/textproto) is modelled first, from the
  documents that define it (RFC 4648, FIPS 180-4, RFC 2104) and from the library's
  documented behaviour; the program itself follows, function by function.
\<close>

section \<open>Go values\<close>

text \<open>
  A Go \<^verbatim>\<open>string\<close> is a sequence of bytes, as an Isabelle \<^typ>\<open>string\<close> is a list of
  8-bit characters. \<^verbatim>\<open>[]byte(s)\<close> is the same sequence as numbers.
\<close>

type_synonym byte = "8 word"
type_synonym uint32 = "32 word"

definition bytes :: "string \<Rightarrow> byte list" where
  "bytes s = map of_char s"

section \<open>encoding/base64: StdEncoding\<close>

text \<open>
  The standard alphabet with \<^verbatim>\<open>=\<close> padding, not strict. \<^verbatim>\<open>EncodeToString\<close> packs
  three bytes into 24 bits and emits four 6-bit digits; a tail of one or two bytes is
  padded.
\<close>

definition encodeStd :: string where
  "encodeStd = ''ABCDEFGHIJKLMNOPQRSTUVWXYZabcdefghijklmnopqrstuvwxyz0123456789+/''"

definition enc6 :: "uint32 \<Rightarrow> char" where
  "enc6 v = encodeStd ! unat (v AND 0x3F)"

fun EncodeToString :: "byte list \<Rightarrow> string" where
  "EncodeToString (a # b # c # r) =
     (let val = push_bit 16 (ucast a) OR push_bit 8 (ucast b) OR ucast c
      in enc6 (drop_bit 18 val) # enc6 (drop_bit 12 val) # enc6 (drop_bit 6 val) # enc6 val
           # EncodeToString r)"
| "EncodeToString [a, b] =
     (let val = push_bit 16 (ucast a) OR push_bit 8 (ucast b)
      in [enc6 (drop_bit 18 val), enc6 (drop_bit 12 val), enc6 (drop_bit 6 val), CHR ''=''])"
| "EncodeToString [a] =
     (let val = push_bit 16 (ucast a)
      in [enc6 (drop_bit 18 val), enc6 (drop_bit 12 val), CHR ''='', CHR ''=''])"
| "EncodeToString [] = []"

text \<open>
  \<^verbatim>\<open>DecodeString\<close> skips every carriage return and line feed, then reads quanta of four
  digits. A character outside the alphabet, a quantum cut short, padding in the first
  two places of a quantum, a single \<^verbatim>\<open>=\<close> where two are due, and anything after the
  padding are all \<^verbatim>\<open>CorruptInputError\<close>, here \<^term>\<open>None\<close> (the error's byte offset
  is not modelled). The unused low bits of a padded quantum are not checked.
\<close>

fun index_of :: "'a \<Rightarrow> 'a list \<Rightarrow> nat option" where
  "index_of x [] = None"
| "index_of x (y # ys) = (if x = y then Some 0 else map_option Suc (index_of x ys))"

definition decodeMap :: "char \<Rightarrow> uint32 option" where
  "decodeMap c = map_option word_of_nat (index_of c encodeStd)"

definition quantum :: "uint32 \<Rightarrow> uint32 \<Rightarrow> uint32 \<Rightarrow> uint32 \<Rightarrow> byte list" where
  "quantum x y z w =
     (let val = push_bit 18 x OR push_bit 12 y OR push_bit 6 z OR w
      in [ucast (drop_bit 16 val), ucast (drop_bit 8 val), ucast val])"

fun decodeQuanta :: "string \<Rightarrow> byte list option" where
  "decodeQuanta [] = Some []"
| "decodeQuanta (a # b # c # d # r) =
     (case (decodeMap a, decodeMap b) of
        (Some x, Some y) \<Rightarrow>
          (if c = CHR ''='' then
             (if d = CHR ''='' \<and> r = [] then Some (take 1 (quantum x y 0 0)) else None)
           else
             (case decodeMap c of
                None \<Rightarrow> None
              | Some z \<Rightarrow>
                  (if d = CHR ''='' then
                     (if r = [] then Some (take 2 (quantum x y z 0)) else None)
                   else
                     (case decodeMap d of
                        None \<Rightarrow> None
                      | Some w \<Rightarrow> map_option ((@) (quantum x y z w)) (decodeQuanta r)))))
      | _ \<Rightarrow> None)"
| "decodeQuanta _ = None"

definition DecodeString :: "string \<Rightarrow> byte list option" where
  "DecodeString s = decodeQuanta (filter (\<lambda>c. c \<noteq> CHR 0x0A \<and> c \<noteq> CHR 0x0D) s)"

section \<open>crypto/sha256 and crypto/hmac\<close>

text \<open>SHA-256 as FIPS 180-4 gives it, on 32-bit words.\<close>

definition rotr :: "nat \<Rightarrow> uint32 \<Rightarrow> uint32" where
  "rotr n x = drop_bit n x OR push_bit (32 - n) x"

definition Ch :: "uint32 \<Rightarrow> uint32 \<Rightarrow> uint32 \<Rightarrow> uint32" where
  "Ch x y z = (x AND y) XOR (NOT x AND z)"

definition Maj :: "uint32 \<Rightarrow> uint32 \<Rightarrow> uint32 \<Rightarrow> uint32" where
  "Maj x y z = (x AND y) XOR (x AND z) XOR (y AND z)"

definition bsig0 :: "uint32 \<Rightarrow> uint32" where
  "bsig0 x = rotr 2 x XOR rotr 13 x XOR rotr 22 x"

definition bsig1 :: "uint32 \<Rightarrow> uint32" where
  "bsig1 x = rotr 6 x XOR rotr 11 x XOR rotr 25 x"

definition ssig0 :: "uint32 \<Rightarrow> uint32" where
  "ssig0 x = rotr 7 x XOR rotr 18 x XOR drop_bit 3 x"

definition ssig1 :: "uint32 \<Rightarrow> uint32" where
  "ssig1 x = rotr 17 x XOR rotr 19 x XOR drop_bit 10 x"

text \<open>
  The constants are defined as the standard defines them: the round constants are the
  first thirty-two bits of the fractional parts of the cube roots of the first
  sixty-four primes, the initial hash value those of the square roots of the first
  eight. \<open>iroot k n b r\<close> finds the integer \<open>k\<close>-th root of \<open>n\<close> bit by bit, from
  bit \<open>b - 1\<close> down.
\<close>

definition is_prime :: "nat \<Rightarrow> bool" where
  "is_prime n = (1 < n \<and> list_all (\<lambda>d. n mod d \<noteq> 0) [2..<n])"

primrec iroot :: "nat \<Rightarrow> int \<Rightarrow> nat \<Rightarrow> int \<Rightarrow> int" where
  "iroot k n 0 r = r"
| "iroot k n (Suc b) r = iroot k n b (if (r + 2 ^ b) ^ k \<le> n then r + 2 ^ b else r)"

definition frac32 :: "nat \<Rightarrow> nat \<Rightarrow> uint32" where
  "frac32 k p = word_of_int (iroot k (int p * 2 ^ (32 * k)) 36 0)"

definition K256 :: "uint32 list" where
  "K256 = map (frac32 3) (filter is_prime [2..<312])"

type_synonym digest =
  "uint32 \<times> uint32 \<times> uint32 \<times> uint32 \<times> uint32 \<times> uint32 \<times> uint32 \<times> uint32"

definition init256 :: digest where
  "init256 = (frac32 2 2, frac32 2 3, frac32 2 5, frac32 2 7,
              frac32 2 11, frac32 2 13, frac32 2 17, frac32 2 19)"

text \<open>Big-endian packing of bytes into words, and back.\<close>

fun be_words :: "byte list \<Rightarrow> uint32 list" where
  "be_words (a # b # c # d # r) =
     (push_bit 24 (ucast a) OR push_bit 16 (ucast b) OR push_bit 8 (ucast c) OR ucast d)
       # be_words r"
| "be_words _ = []"

definition be_bytes :: "uint32 \<Rightarrow> byte list" where
  "be_bytes w = [ucast (drop_bit 24 w), ucast (drop_bit 16 w), ucast (drop_bit 8 w), ucast w]"

definition be_bytes64 :: "64 word \<Rightarrow> byte list" where
  "be_bytes64 w = map (\<lambda>i. ucast (drop_bit (8 * i) w)) [7, 6, 5, 4, 3, 2, 1, 0]"

text \<open>
  The message schedule, newest word first: \<open>schedule 48\<close> extends the sixteen words of
  a block (reversed) to all sixty-four.
\<close>

fun schedule :: "nat \<Rightarrow> uint32 list \<Rightarrow> uint32 list" where
  "schedule 0 ws = ws"
| "schedule (Suc n) ws =
     schedule n ((ssig1 (ws ! 1) + ws ! 6 + ssig0 (ws ! 14) + ws ! 15) # ws)"

fun round256 :: "digest \<Rightarrow> uint32 \<times> uint32 \<Rightarrow> digest" where
  "round256 (a, b, c, d, e, f, g, h) (k, w) =
     (let t1 = h + bsig1 e + Ch e f g + k + w;
          t2 = bsig0 a + Maj a b c
      in (t1 + t2, a, b, c, d + t1, e, f, g))"

fun add256 :: "digest \<Rightarrow> digest \<Rightarrow> digest" where
  "add256 (a, b, c, d, e, f, g, h) (a', b', c', d', e', f', g', h') =
     (a + a', b + b', c + c', d + d', e + e', f + f', g + g', h + h')"

definition block256 :: "digest \<Rightarrow> byte list \<Rightarrow> digest" where
  "block256 h p =
     add256 h (foldl round256 h (zip K256 (rev (schedule 48 (rev (be_words p))))))"

function blocks256 :: "digest \<Rightarrow> byte list \<Rightarrow> digest" where
  "blocks256 h p =
     (if length p < 64 then h else blocks256 (block256 h (take 64 p)) (drop 64 p))"
  by pat_completeness auto
termination
  by (relation "measure (\<lambda>(h, p). length p)") auto

declare blocks256.simps [simp del]

definition pad256 :: "byte list \<Rightarrow> byte list" where
  "pad256 m =
     m @ [0x80] @ replicate ((119 - length m mod 64) mod 64) 0
       @ be_bytes64 (push_bit 3 (word_of_nat (length m)))"

fun digest_bytes :: "digest \<Rightarrow> byte list" where
  "digest_bytes (a, b, c, d, e, f, g, h) = concat (map be_bytes [a, b, c, d, e, f, g, h])"

definition Sum256 :: "byte list \<Rightarrow> byte list" where
  "Sum256 m = digest_bytes (blocks256 init256 (pad256 m))"

text \<open>
  \<^verbatim>\<open>hmac.New(sha256.New, key)\<close>, \<^verbatim>\<open>Write(msg)\<close>, \<^verbatim>\<open>Sum(nil)\<close>: RFC 2104 with the
  64-byte block of SHA-256. A key longer than a block is hashed first.
\<close>

definition hmac_sha256 :: "byte list \<Rightarrow> byte list \<Rightarrow> byte list" where
  "hmac_sha256 key msg =
     (let k = (if 64 < length key then Sum256 key else key);
          k0 = k @ replicate (64 - length k) 0;
          ipad = map (\<lambda>b. b XOR 0x36) k0;
          opad = map (\<lambda>b. b XOR 0x5c) k0
      in Sum256 (opad @ Sum256 (ipad @ msg)))"

section \<open>strconv and fmt\<close>

text \<open>
  \<^verbatim>\<open>strconv.FormatInt(i, 10)\<close>, which is also what the verb \<^verbatim>\<open>%d\<close> prints for an
  \<^verbatim>\<open>int64\<close>: the decimal digits, most significant first, after a minus sign when the
  number is negative. \<^verbatim>\<open>time.Time.Unix()\<close> is an \<^verbatim>\<open>int64\<close>; the model takes any
  integer, so it covers every value the code can see.
\<close>

definition digit :: "nat \<Rightarrow> char" where
  "digit d = ''0123456789'' ! d"

function digits :: "nat \<Rightarrow> string" where
  "digits n = (if n < 10 then [digit n] else digits (n div 10) @ [digit (n mod 10)])"
  by pat_completeness auto
termination
  by (relation "measure (\<lambda>n. n)") auto

declare digits.simps [simp del]

definition FormatInt :: "int \<Rightarrow> string" where
  "FormatInt i = (if i < 0 then CHR ''-'' # digits (nat (- i)) else digits (nat i))"

text \<open>
  \<^verbatim>\<open>req.Body\<close> is an \<^verbatim>\<open>io.ReadCloser\<close>. The code never reads it: it only hands it to
  the verb \<^verbatim>\<open>%s\<close>. So the model keeps of a body what that verb prints for it. A nil
  interface prints as \<^verbatim>\<open>%!s(<nil>)\<close>; for any other value fmt derives a text from
  the handle's dynamic type (its \<^verbatim>\<open>String\<close> method, or its fields in braces), which
  a \<open>Stream\<close> carries as data. That text is a rendering of the handle, not the payload
  a reader would get from it.
\<close>

datatype body = NilBody | Stream string

fun Sprint_s :: "body \<Rightarrow> string" where
  "Sprint_s NilBody = ''%!s(<nil>)''"
| "Sprint_s (Stream rendering) = rendering"

section \<open>net/http and net/textproto\<close>

text \<open>
  An \<^verbatim>\<open>http.Header\<close> is a \<^verbatim>\<open>map[string][]string\<close>. Both header maps of the
  program are allocated before \<^verbatim>\<open>RoundTrip\<close> writes to them (\<^verbatim>\<open>Configure\<close> makes
  the transport's, net/http's client makes the request's), so a header map is a finite
  map and the nil map is not a value of the model.
\<close>

type_synonym header = "string \<rightharpoonup> string list"

definition validHeaderFieldByte :: "char \<Rightarrow> bool" where
  "validHeaderFieldByte c =
     (let n = (of_char c :: nat)
      in (48 \<le> n \<and> n \<le> 57) \<or> (65 \<le> n \<and> n \<le> 90) \<or> (97 \<le> n \<and> n \<le> 122)
         \<or> n \<in> {33, 35, 36, 37, 38, 39, 42, 43, 45, 46, 94, 95, 96, 124, 126})"

definition is_lower :: "char \<Rightarrow> bool" where
  "is_lower c = (97 \<le> (of_char c :: nat) \<and> (of_char c :: nat) \<le> 122)"

definition is_upper :: "char \<Rightarrow> bool" where
  "is_upper c = (65 \<le> (of_char c :: nat) \<and> (of_char c :: nat) \<le> 90)"

fun canonical :: "bool \<Rightarrow> string \<Rightarrow> string" where
  "canonical upper [] = []"
| "canonical upper (c # cs) =
     (let c' = (if upper \<and> is_lower c then char_of (of_char c - (32 :: nat))
                else if \<not> upper \<and> is_upper c then char_of (of_char c + (32 :: nat))
                else c)
      in c' # canonical (c' = CHR ''-'') cs)"

definition CanonicalMIMEHeaderKey :: "string \<Rightarrow> string" where
  "CanonicalMIMEHeaderKey s = (if list_all validHeaderFieldByte s then canonical True s else s)"

text \<open>\<^verbatim>\<open>Header.Set(key, value)\<close>: one fresh single-element slice under the canonical key.\<close>

definition Header_Set :: "header \<Rightarrow> string \<Rightarrow> string \<Rightarrow> header" where
  "Header_Set h key v = h(CanonicalMIMEHeaderKey key \<mapsto> [v])"

record url =
  Scheme :: string
  Host :: string
  Path :: string
  RawQuery :: string

record request =
  Method :: string
  URL :: url
  Header :: header
  Body :: body

section \<open>The provider\<close>

text \<open>
  \<^verbatim>\<open>types.String\<close> of the plugin framework: null, unknown, or a known value;
  \<^verbatim>\<open>ValueString\<close> is the empty string unless the value is known.
\<close>

datatype tf_string = StringNull | StringUnknown | StringValue string

fun ValueString :: "tf_string \<Rightarrow> string" where
  "ValueString (StringValue s) = s"
| "ValueString _ = []"

record DetectifyProviderModel =
  APIKey :: tf_string
  Signature :: tf_string

text \<open>
  The \<^verbatim>\<open>transport\<close> struct. Its \<^verbatim>\<open>Transport\<close> field is any \<^verbatim>\<open>http.RoundTripper\<close>:
  a function from the request and the state of the world it talks to (\<open>'u\<close>) to what
  it returns (\<open>'r\<close>, the response and error pair) and the new state.
\<close>

record ('u, 'r) transport =
  Transport :: "request \<Rightarrow> 'u \<Rightarrow> 'r \<times> 'u"
  Headers :: header
  apiKey :: string
  secret :: string
  signature :: string

text \<open>
  \<^verbatim>\<open>Configure\<close>, lines 63 to 81. The argument \<open>config\<close> is what \<^verbatim>\<open>req.Config.Get\<close>
  decoded, \<^term>\<open>None\<close> when it reported an error (the function then returns before
  it builds anything). The struct literal names three fields; \<^verbatim>\<open>apiKey\<close> and
  \<^verbatim>\<open>secret\<close> keep Go's zero value, the empty string. The result is the transport
  that the function installs in the HTTP client.
\<close>

definition Configure ::
  "(request \<Rightarrow> 'u \<Rightarrow> 'r \<times> 'u) \<Rightarrow> DetectifyProviderModel option \<Rightarrow> ('u, 'r) transport option" where
  "Configure DefaultTransport config =
     (case config of
        None \<Rightarrow> None
      | Some data \<Rightarrow>
          (let headers = Header_Set Map.empty ''X-Detectify-Key'' (ValueString (APIKey data))
           in Some \<lparr>Transport = DefaultTransport,
                    Headers = headers,
                    apiKey = [],
                    secret = [],
                    signature = ValueString (Signature data)\<rparr>))"

text \<open>
  Line 146, the text that is signed:
  \<^verbatim>\<open>fmt.Sprintf("%s;%s;%s;%d;%s", req.Method, req.URL.Path, apiKey, timestamp.Unix(), req.Body)\<close>.
\<close>

definition Sprintf_value :: "request \<Rightarrow> string \<Rightarrow> int \<Rightarrow> string" where
  "Sprintf_value req apikey timestamp =
     Method req @ '';'' @ Path (URL req) @ '';'' @ apikey @ '';''
       @ FormatInt timestamp @ '';'' @ Sprint_s (Body req)"

text \<open>
  \<^verbatim>\<open>CalculateSignature\<close>, lines 138 to 152. A failed decoding panics with the error:
  \<^term>\<open>Inl\<close>. \<^verbatim>\<open>fmt.Println(value)\<close> writes the message and a line feed to the
  standard output, which the function takes and returns as its second component. The
  timestamp is the \<^verbatim>\<open>time.Time\<close> read through \<^verbatim>\<open>Unix()\<close>, its only use.
\<close>

datatype error = CorruptInputError

definition CalculateSignature ::
  "request \<Rightarrow> string \<Rightarrow> string \<Rightarrow> int \<Rightarrow> string \<Rightarrow> (error + string) \<times> string" where
  "CalculateSignature req apikey secretKey timestamp stdout =
     (case DecodeString secretKey of
        None \<Rightarrow> (Inl CorruptInputError, stdout)
      | Some key \<Rightarrow>
          (let val = Sprintf_value req apikey timestamp;
               stdout' = stdout @ val @ [CHR 0x0A];
               mac = hmac_sha256 key (bytes val)
           in (Inr (EncodeToString mac), stdout')))"

text \<open>
  \<^verbatim>\<open>transport.RoundTrip\<close>, lines 121 to 135. The receiver and the request are
  pointers, so the call can change both: the outcome holds them as the call leaves
  them, next to the standard output and the state behind the wrapped transport.
  \<open>now\<close> is the result of \<^verbatim>\<open>time.Now()\<close>, in Unix seconds. A panic of
  \<^verbatim>\<open>CalculateSignature\<close> unwinds \<^verbatim>\<open>RoundTrip\<close> at line 124, before any write.
\<close>

record ('u, 'r) outcome =
  ret :: "error + 'r"
  t_after :: "('u, 'r) transport"
  req_after :: request
  stdout_after :: string
  net_after :: 'u

definition RoundTrip ::
  "('u, 'r) transport \<Rightarrow> request \<Rightarrow> int \<Rightarrow> string \<Rightarrow> 'u \<Rightarrow> ('u, 'r) outcome" where
  "RoundTrip t req now stdout net =
     (case (if 0 < length (signature t) then
              (case CalculateSignature req (apiKey t) (secret t) now stdout of
                 (Inl e, stdout') \<Rightarrow> (Inl e, stdout')
               | (Inr sig, stdout') \<Rightarrow>
                   (Inr (t\<lparr>Headers :=
                            Header_Set
                              (Header_Set (Headers t) ''X-Detectify-Timestamp'' (FormatInt now))
                              ''X-Detectify-Signature'' sig\<rparr>),
                    stdout'))
            else (Inr t, stdout)) of
        (Inl e, stdout') \<Rightarrow>
          \<lparr>ret = Inl e, t_after = t, req_after = req, stdout_after = stdout', net_after = net\<rparr>
      | (Inr t', stdout') \<Rightarrow>
          (let req' = req\<lparr>Header := Header req ++ Headers t'\<rparr>;
               (r, net') = Transport t' req' net
           in \<lparr>ret = Inr r, t_after = t', req_after = req', stdout_after = stdout',
               net_after = net'\<rparr>))"

section \<open>The specification's Calculator\<close>

text \<open>
  The contract of section 4.1 of the specification, written from its words and not
  from the code: the canonical message is the five fields in order, joined by
  semicolons, the timestamp in decimal; the signature is the base64 text of the
  HMAC-SHA256 of the message under the decoded secret; a secret that does not decode
  is a \<open>DecodingError\<close>.
\<close>

definition spec_canonical_message :: "string \<Rightarrow> string \<Rightarrow> string \<Rightarrow> int \<Rightarrow> string \<Rightarrow> string" where
  "spec_canonical_message method path apikey unix_timestamp body_text =
     concat [method, '';'', path, '';'', apikey, '';'', FormatInt unix_timestamp, '';'', body_text]"

datatype spec_error = DecodingError

definition spec_calculate ::
  "string \<Rightarrow> string \<Rightarrow> string \<Rightarrow> string \<Rightarrow> int \<Rightarrow> string \<Rightarrow> spec_error + string" where
  "spec_calculate method path apikey secretKey timestamp body_text =
     (case DecodeString secretKey of
        None \<Rightarrow> Inl DecodingError
      | Some key \<Rightarrow>
          Inr (EncodeToString
                 (hmac_sha256 key (bytes (spec_canonical_message method path apikey timestamp body_text)))))"

section \<open>Reading a decimal back\<close>

text \<open>
  The inverse of \<^const>\<open>FormatInt\<close>, as \<^verbatim>\<open>strconv.ParseInt\<close> reads a decimal: it is
  what makes the decimal text stand for exactly one integer.
\<close>

definition digit_val :: "char \<Rightarrow> nat" where
  "digit_val c = of_char c - 48"

definition parse_digits :: "string \<Rightarrow> nat" where
  "parse_digits s = foldl (\<lambda>a c. 10 * a + digit_val c) 0 s"

definition ParseInt :: "string \<Rightarrow> int" where
  "ParseInt s =
     (case s of
        [] \<Rightarrow> 0
      | c # r \<Rightarrow> if c = CHR ''-'' then - int (parse_digits r) else int (parse_digits s))"

section \<open>A wrapped transport for the examples\<close>

text \<open>
  A \<^verbatim>\<open>RoundTripper\<close> that answers every request with status 200 and keeps the list
  of the requests it was given: the examples read from that list what left through
  \<^verbatim>\<open>RoundTrip\<close>, and how often.
\<close>

definition recorder :: "request \<Rightarrow> request list \<Rightarrow> nat \<times> request list" where
  "recorder req log = (200, log @ [req])"

definition get_assets :: request where
  "get_assets =
     \<lparr>Method = ''GET'',
      URL = \<lparr>Scheme = ''https'', Host = ''api.detectify.com'', Path = ''/v2/assets'',
             RawQuery = []\<rparr>,
      Header = Map.empty,
      Body = NilBody\<rparr>"

text \<open>
  Two provider configurations, with and without a signature value, the transports
  \<^const>\<open>Configure\<close> builds from them around the recorder, and a transport whose
  \<^verbatim>\<open>secret\<close> field holds text that is not base64 (no call of \<^const>\<open>Configure\<close>
  yields one: it is written out field by field).
\<close>

definition signed_config :: DetectifyProviderModel where
  "signed_config = \<lparr>APIKey = StringValue ''abc123'', Signature = StringValue ''c2VjcmV0''\<rparr>"

definition unsigned_config :: DetectifyProviderModel where
  "unsigned_config = \<lparr>APIKey = StringValue ''abc123'', Signature = StringNull\<rparr>"

definition configured :: "DetectifyProviderModel \<Rightarrow> (request list, nat) transport" where
  "configured data = the (Configure recorder (Some data))"

definition bad_secret_transport :: "(request list, nat) transport" where
  "bad_secret_transport =
     \<lparr>Transport = recorder,
      Headers = [''X-Detectify-Key'' \<mapsto> [''abc123'']],
      apiKey = ''abc123'',
      secret = ''not-base64!!'',
      signature = ''not-base64!!''\<rparr>"

text \<open>
  A request whose caller has already set headers of its own, two of them under the
  names the transport uses.
\<close>

definition caller_request :: request where
  "caller_request =
     get_assets\<lparr>Header := [''Accept'' \<mapsto> [''application/json''],
                            ''X-Detectify-Key'' \<mapsto> [''caller''],
                            ''X-Detectify-Signature'' \<mapsto> [''forged'']]\<rparr>"

text \<open>The same request for another path, and with another method.\<close>

definition with_path :: "string \<Rightarrow> request" where
  "with_path p = get_assets\<lparr>URL := (URL get_assets)\<lparr>Path := p\<rparr>\<rparr>"

definition with_method :: "string \<Rightarrow> request" where
  "with_method m = get_assets\<lparr>Method := m\<rparr>"

section \<open>The library model, checked\<close>

lemma frac32_spot:
  "frac32 3 2 = 0x428a2f98" "frac32 3 311 = 0xc67178f2"
  "frac32 2 2 = 0x6a09e667" "frac32 2 19 = 0x5be0cd19"
  by code_simp+

lemma primes_spot: "filter is_prime [2..<30] = [2, 3, 5, 7, 11, 13, 17, 19, 23, 29]"
  by (simp add: is_prime_def upt_rec)

lemma DecodeString_empty: "DecodeString [] = Some []"
  by (simp add: DecodeString_def)

lemma DecodeString_secret: "DecodeString ''c2VjcmV0'' = Some (bytes ''secret'')"
  by code_simp

lemma DecodeString_not_base64: "DecodeString ''not-base64!!'' = None"
  by code_simp

lemma canonical_keys:
  "CanonicalMIMEHeaderKey ''X-Detectify-Key'' = ''X-Detectify-Key''"
  "CanonicalMIMEHeaderKey ''X-Detectify-Timestamp'' = ''X-Detectify-Timestamp''"
  "CanonicalMIMEHeaderKey ''X-Detectify-Signature'' = ''X-Detectify-Signature''"
  by code_simp+

lemma FormatInt_1700000000: "FormatInt 1700000000 = ''1700000000''"
  by (simp add: FormatInt_def digit_def digits.simps)

section \<open>Decimal text stands for one integer\<close>

lemma digit_val_digit: "d < 10 \<Longrightarrow> digit_val (digit d) = d"
proof -
  assume "d < 10"
  then have "d \<in> {0, 1, 2, 3, 4, 5, 6, 7, 8, 9}" by auto
  then show ?thesis by (auto simp: digit_val_def digit_def)
qed

lemma digit_in: "d < 10 \<Longrightarrow> digit d \<in> set ''0123456789''"
  unfolding digit_def by (rule nth_mem) simp

lemma parse_digits_snoc: "parse_digits (s @ [c]) = 10 * parse_digits s + digit_val c"
  by (simp add: parse_digits_def)

lemma parse_digits_digits: "parse_digits (digits n) = n"
proof (induction n rule: digits.induct)
  case (1 n)
  show ?case
  proof (cases "n < 10")
    case True
    then show ?thesis
      by (subst digits.simps) (simp add: parse_digits_def digit_val_digit)
  next
    case False
    with 1 have "parse_digits (digits (n div 10)) = n div 10" by simp
    with False show ?thesis
      by (subst digits.simps) (simp add: parse_digits_snoc digit_val_digit)
  qed
qed

lemma set_digits: "set (digits n) \<subseteq> set ''0123456789''"
proof (induction n rule: digits.induct)
  case (1 n)
  show ?case
  proof (cases "n < 10")
    case True
    with digit_in [of n] show ?thesis
      by (subst digits.simps) simp
  next
    case False
    with 1 have "set (digits (n div 10)) \<subseteq> set ''0123456789''" by simp
    with False digit_in [of "n mod 10"] show ?thesis
      by (subst digits.simps) simp
  qed
qed

lemma digits_nonempty: "digits n \<noteq> []"
  by (subst digits.simps) simp

lemma hd_digits: "hd (digits n) \<noteq> CHR ''-''"
proof -
  have "hd (digits n) \<in> set (digits n)" by (simp add: digits_nonempty)
  with set_digits [of n] show ?thesis by auto
qed

lemma ParseInt_FormatInt: "ParseInt (FormatInt i) = i"
proof (cases "i < 0")
  case True
  then show ?thesis by (simp add: ParseInt_def FormatInt_def parse_digits_digits)
next
  case False
  obtain c r where cr: "digits (nat i) = c # r"
    using digits_nonempty [of "nat i"] by (cases "digits (nat i)") auto
  with hd_digits [of "nat i"] have "c \<noteq> CHR ''-''" by simp
  moreover have "parse_digits (c # r) = nat i"
    using parse_digits_digits [of "nat i"] cr by simp
  ultimately show ?thesis using False cr by (simp add: ParseInt_def FormatInt_def)
qed

lemma FormatInt_inj: "FormatInt i = FormatInt j \<Longrightarrow> i = j"
  by (metis ParseInt_FormatInt)

lemma semicolon_notin_FormatInt: "CHR '';'' \<notin> set (FormatInt i)"
  using set_digits [of "nat i"] set_digits [of "nat (- i)"]
  by (auto simp: FormatInt_def)

lemma split_at_delimiter:
  "c \<notin> set a \<Longrightarrow> c \<notin> set a' \<Longrightarrow> a @ c # r = a' @ c # r' \<Longrightarrow> a = a' \<and> r = r'"
proof (induction a arbitrary: a')
  case Nil
  then show ?case by (cases a') auto
next
  case (Cons x a)
  then show ?case by (cases a') auto
qed

section \<open>What the program computes, case by case\<close>

lemma Header_Set_keys:
  "Header_Set h ''X-Detectify-Key'' v = h(''X-Detectify-Key'' \<mapsto> [v])"
  "Header_Set h ''X-Detectify-Timestamp'' v = h(''X-Detectify-Timestamp'' \<mapsto> [v])"
  "Header_Set h ''X-Detectify-Signature'' v = h(''X-Detectify-Signature'' \<mapsto> [v])"
  by (simp_all only: Header_Set_def canonical_keys)

lemma CalculateSignature_Some:
  "DecodeString secretKey = Some key \<Longrightarrow>
   CalculateSignature req apikey secretKey timestamp out =
     (Inr (EncodeToString (hmac_sha256 key (bytes (Sprintf_value req apikey timestamp)))),
      out @ Sprintf_value req apikey timestamp @ [CHR 0x0A])"
  by (simp add: CalculateSignature_def Let_def)

lemma CalculateSignature_None:
  "DecodeString secretKey = None \<Longrightarrow>
   CalculateSignature req apikey secretKey timestamp out = (Inl CorruptInputError, out)"
  by (simp add: CalculateSignature_def)

lemma RoundTrip_unsigned:
  "signature t = [] \<Longrightarrow>
   RoundTrip t req now out net =
     \<lparr>ret = Inr (fst (Transport t (req\<lparr>Header := Header req ++ Headers t\<rparr>) net)),
      t_after = t,
      req_after = req\<lparr>Header := Header req ++ Headers t\<rparr>,
      stdout_after = out,
      net_after = snd (Transport t (req\<lparr>Header := Header req ++ Headers t\<rparr>) net)\<rparr>"
  by (simp add: RoundTrip_def Let_def split: prod.split)

lemma RoundTrip_panic:
  "signature t \<noteq> [] \<Longrightarrow> DecodeString (secret t) = None \<Longrightarrow>
   RoundTrip t req now out net =
     \<lparr>ret = Inl CorruptInputError, t_after = t, req_after = req, stdout_after = out,
      net_after = net\<rparr>"
  by (simp add: RoundTrip_def CalculateSignature_None)

lemma RoundTrip_signed:
  assumes "signature t \<noteq> []" and "DecodeString (secret t) = Some key"
  shows "RoundTrip t req now out net =
     (let sig = EncodeToString (hmac_sha256 key (bytes (Sprintf_value req (apiKey t) now)));
          t' = t\<lparr>Headers := (Headers t)(''X-Detectify-Timestamp'' \<mapsto> [FormatInt now],
                                          ''X-Detectify-Signature'' \<mapsto> [sig])\<rparr>;
          req' = req\<lparr>Header := Header req ++ Headers t'\<rparr>
      in \<lparr>ret = Inr (fst (Transport t req' net)),
          t_after = t',
          req_after = req',
          stdout_after = out @ Sprintf_value req (apiKey t) now @ [CHR 0x0A],
          net_after = snd (Transport t req' net)\<rparr>)"
  using assms
  by (simp add: RoundTrip_def CalculateSignature_Some Header_Set_keys Let_def split: prod.split)

lemma Configure_Some:
  "Configure rt (Some data) = Some t \<longleftrightarrow>
   t = \<lparr>Transport = rt,
        Headers = [''X-Detectify-Key'' \<mapsto> [ValueString (APIKey data)]],
        apiKey = [], secret = [], signature = ValueString (Signature data)\<rparr>"
  by (auto simp: Configure_def Header_Set_keys Let_def)

section \<open>The example transports and requests\<close>

lemma Configure_configured: "Configure recorder (Some data) = Some (configured data)"
  by (simp add: configured_def Configure_def Let_def)

lemma configured_fields:
  "Transport (configured data) = recorder"
  "Headers (configured data) = [''X-Detectify-Key'' \<mapsto> [ValueString (APIKey data)]]"
  "apiKey (configured data) = []"
  "secret (configured data) = []"
  "signature (configured data) = ValueString (Signature data)"
  by (simp_all add: configured_def Configure_def Let_def Header_Set_keys)

lemma Sprintf_value_get_assets:
  "Sprintf_value get_assets k 1700000000 = ''GET;/v2/assets;'' @ k @ '';1700000000;%!s(<nil>)''"
  by (simp add: Sprintf_value_def get_assets_def FormatInt_1700000000)

section \<open>The Calculator\<close>

text \<open>
  C10. The empty string decodes to the empty key, so \<^verbatim>\<open>CalculateSignature\<close> with an
  empty \<^verbatim>\<open>secretKey\<close> does not panic and returns the signature under the empty key.
  Every transport that \<^verbatim>\<open>Configure\<close> builds has the empty \<^verbatim>\<open>secret\<close>, keeps it
  through a send, and its \<^verbatim>\<open>RoundTrip\<close> returns what the wrapped transport returned:
  the panic cannot occur.
\<close>

theorem empty_secret_never_panics:
  "DecodeString [] = Some []
   \<and> CalculateSignature req apikey [] timestamp out =
       (Inr (EncodeToString (hmac_sha256 [] (bytes (Sprintf_value req apikey timestamp)))),
        out @ Sprintf_value req apikey timestamp @ [CHR 0x0A])
   \<and> (Configure rt (Some data) = Some t \<longrightarrow>
        secret t = []
        \<and> secret (t_after (RoundTrip t req now out net)) = []
        \<and> (\<exists>r. ret (RoundTrip t req now out net) = Inr r))"
proof (intro conjI impI)
  show "DecodeString [] = Some []" by (rule DecodeString_empty)
  show "CalculateSignature req apikey [] timestamp out =
       (Inr (EncodeToString (hmac_sha256 [] (bytes (Sprintf_value req apikey timestamp)))),
        out @ Sprintf_value req apikey timestamp @ [CHR 0x0A])"
    by (rule CalculateSignature_Some [OF DecodeString_empty])
next
  assume c: "Configure rt (Some data) = Some t"
  then show s: "secret t = []" by (simp add: Configure_Some)
  have d: "DecodeString (secret t) = Some []" by (simp add: s DecodeString_empty)
  show "secret (t_after (RoundTrip t req now out net)) = []"
  proof (cases "signature t = []")
    case True
    then show ?thesis by (simp add: RoundTrip_unsigned s)
  next
    case False
    then show ?thesis by (simp add: RoundTrip_signed [OF False d] Let_def s)
  qed
  show "\<exists>r. ret (RoundTrip t req now out net) = Inr r"
  proof (cases "signature t = []")
    case True
    then show ?thesis by (simp add: RoundTrip_unsigned)
  next
    case False
    then show ?thesis by (simp add: RoundTrip_signed [OF False d] Let_def)
  qed
qed

theorem empty_secret_never_panics_witness:
  "Configure recorder (Some signed_config) = Some (configured signed_config)
   \<and> secret (configured signed_config) = []
   \<and> ret (RoundTrip (configured signed_config) get_assets 1700000000 [] []) = Inr 200
   \<and> fst (CalculateSignature get_assets ''abc123'' [] 1700000000 []) =
       Inr (EncodeToString
              (hmac_sha256 [] (bytes ''GET;/v2/assets;abc123;1700000000;%!s(<nil>)'')))"
proof -
  note c = Configure_configured [of signed_config]
  note w = empty_secret_never_panics
    [of get_assets "''abc123''" 1700000000 "[]" recorder signed_config
        "configured signed_config" 1700000000 "[]"]
  from w c obtain r where
    r: "ret (RoundTrip (configured signed_config) get_assets 1700000000 [] []) = Inr r"
    by blast
  have "signature (configured signed_config) \<noteq> []"
    by (simp add: configured_fields signed_config_def)
  then have "ret (RoundTrip (configured signed_config) get_assets 1700000000 [] []) = Inr 200"
    using r
    by (simp add: RoundTrip_signed [where key = "[]"] configured_fields DecodeString_empty
        Let_def recorder_def)
  with w c show ?thesis by (simp add: Sprintf_value_get_assets)
qed

text \<open>
  C1. With a secret that decodes to \<open>key\<close>, \<^verbatim>\<open>CalculateSignature\<close> returns the
  standard base64 text of the HMAC-SHA256, under \<open>key\<close>, of the canonical message of
  the specification: method, URL path, API key, the timestamp in decimal (the text
  reads back as the same integer) and the body text, joined by semicolons in that
  order. That is the result of the specification's \<open>calculate\<close>. Of the URL only the
  path is signed: scheme, host and query do not change the result, nor do the
  request's headers. The body text is what Go's \<^verbatim>\<open>%s\<close> prints for \<^verbatim>\<open>req.Body\<close>.
\<close>

theorem CalculateSignature_refines_spec:
  assumes "DecodeString secretKey = Some key"
  shows "fst (CalculateSignature req apikey secretKey timestamp out) =
           Inr (EncodeToString (hmac_sha256 key (bytes
                 (spec_canonical_message (Method req) (Path (URL req)) apikey timestamp
                    (Sprint_s (Body req))))))
         \<and> spec_calculate (Method req) (Path (URL req)) apikey secretKey timestamp
             (Sprint_s (Body req)) =
           Inr (EncodeToString (hmac_sha256 key (bytes
                 (spec_canonical_message (Method req) (Path (URL req)) apikey timestamp
                    (Sprint_s (Body req))))))
         \<and> ParseInt (FormatInt timestamp) = timestamp
         \<and> fst (CalculateSignature
                  (req\<lparr>URL := (URL req)\<lparr>Scheme := sc, Host := ho, RawQuery := qu\<rparr>,
                        Header := hs\<rparr>) apikey secretKey timestamp out) =
           fst (CalculateSignature req apikey secretKey timestamp out)"
proof -
  have m: "Sprintf_value r apikey timestamp =
           spec_canonical_message (Method r) (Path (URL r)) apikey timestamp (Sprint_s (Body r))"
    for r
    by (simp add: Sprintf_value_def spec_canonical_message_def)
  show ?thesis
    using assms
    by (simp add: CalculateSignature_Some spec_calculate_def ParseInt_FormatInt m)
qed

theorem CalculateSignature_refines_spec_witness:
  "DecodeString ''c2VjcmV0'' = Some (bytes ''secret'')
   \<and> fst (CalculateSignature (get_assets\<lparr>Body := Stream []\<rparr>) ''abc123'' ''c2VjcmV0''
            1700000000 []) =
       Inr (EncodeToString
              (hmac_sha256 (bytes ''secret'') (bytes ''GET;/v2/assets;abc123;1700000000;'')))
   \<and> spec_calculate ''GET'' ''/v2/assets'' ''abc123'' ''c2VjcmV0'' 1700000000 [] =
       Inr (EncodeToString
              (hmac_sha256 (bytes ''secret'') (bytes ''GET;/v2/assets;abc123;1700000000;'')))"
  using CalculateSignature_refines_spec
    [OF DecodeString_secret, of "get_assets\<lparr>Body := Stream []\<rparr>" "''abc123''" 1700000000 "[]"]
  by (simp add: DecodeString_secret get_assets_def spec_canonical_message_def FormatInt_1700000000)

text \<open>
  C3. With a secret that does not decode, \<^verbatim>\<open>CalculateSignature\<close> panics with the
  decoding error and has written nothing (the message is printed, and the HMAC taken,
  only after the decoding). In signing mode the panic unwinds \<^verbatim>\<open>RoundTrip\<close>: its
  caller gets the error, the transport's header map and the request are as they were
  (no timestamp, no signature, no key header was set), and the wrapped transport was
  not called, whatever it is: the request did not leave.
\<close>

theorem invalid_secret_panics_before_any_header:
  assumes "DecodeString secretKey = None"
  shows "CalculateSignature req apikey secretKey timestamp out = (Inl CorruptInputError, out)
         \<and> (signature t \<noteq> [] \<and> secret t = secretKey \<longrightarrow>
              RoundTrip t req now out net =
                \<lparr>ret = Inl CorruptInputError, t_after = t, req_after = req,
                 stdout_after = out, net_after = net\<rparr>)"
  using assms by (auto simp: CalculateSignature_None RoundTrip_panic)

theorem invalid_secret_panics_before_any_header_witness:
  "DecodeString ''not-base64!!'' = None
   \<and> CalculateSignature get_assets ''abc123'' ''not-base64!!'' 1700000000 [] =
       (Inl CorruptInputError, [])
   \<and> RoundTrip bad_secret_transport get_assets 1700000000 [] [] =
       \<lparr>ret = Inl CorruptInputError, t_after = bad_secret_transport, req_after = get_assets,
        stdout_after = [], net_after = []\<rparr>"
  using invalid_secret_panics_before_any_header
    [OF DecodeString_not_base64, of get_assets "''abc123''" 1700000000 "[]"
        bad_secret_transport 1700000000 "[]"]
  by (simp add: DecodeString_not_base64 bad_secret_transport_def)

section \<open>The transport\<close>

text \<open>
  C7. When the call does not panic (signing is off, or the secret decodes),
  \<^verbatim>\<open>RoundTrip\<close> leaves the request's method, URL and body as they were, and every
  header whose name is not in the transport's header map as the copy loop finds it
  (the configured names, and in signing mode the timestamp and signature names). It
  applies the wrapped transport once, to the request so prepared: what it returns is
  what that application returned, and the state behind the wrapped transport is the
  state that one application left. This holds for every wrapped transport and every
  type of result, so nothing of the result is inspected.
\<close>

theorem RoundTrip_delegates_once:
  assumes "signature t = [] \<or> DecodeString (secret t) \<noteq> None"
  shows "Method (req_after (RoundTrip t req now out net)) = Method req
         \<and> URL (req_after (RoundTrip t req now out net)) = URL req
         \<and> Body (req_after (RoundTrip t req now out net)) = Body req
         \<and> (\<forall>k. k \<notin> dom (Headers (t_after (RoundTrip t req now out net))) \<longrightarrow>
                Header (req_after (RoundTrip t req now out net)) k = Header req k)
         \<and> dom (Headers (t_after (RoundTrip t req now out net))) =
             dom (Headers t) \<union>
               (if signature t = [] then {}
                else {''X-Detectify-Timestamp'', ''X-Detectify-Signature''})
         \<and> ret (RoundTrip t req now out net) =
             Inr (fst (Transport t (req_after (RoundTrip t req now out net)) net))
         \<and> net_after (RoundTrip t req now out net) =
             snd (Transport t (req_after (RoundTrip t req now out net)) net)"
proof (cases "signature t = []")
  case True
  then show ?thesis
    by (auto simp: RoundTrip_unsigned map_add_dom_app_simps)
next
  case False
  with assms obtain key where key: "DecodeString (secret t) = Some key" by auto
  show ?thesis
    using False
    by (auto simp: RoundTrip_signed [OF False key] Let_def map_add_dom_app_simps)
qed

theorem RoundTrip_delegates_once_witness:
  "(signature (configured signed_config) = []
      \<or> DecodeString (secret (configured signed_config)) \<noteq> None)
   \<and> ret (RoundTrip (configured signed_config) get_assets 1700000000 [] []) = Inr 200
   \<and> net_after (RoundTrip (configured signed_config) get_assets 1700000000 [] []) =
       [req_after (RoundTrip (configured signed_config) get_assets 1700000000 [] [])]
   \<and> Method (req_after (RoundTrip (configured signed_config) get_assets 1700000000 [] [])) =
       ''GET''
   \<and> Path (URL (req_after (RoundTrip (configured signed_config) get_assets 1700000000 [] [])))
       = ''/v2/assets''
   \<and> Header (req_after (RoundTrip (configured signed_config) get_assets 1700000000 [] []))
       ''Accept'' = None"
proof -
  have h: "signature (configured signed_config) = []
      \<or> DecodeString (secret (configured signed_config)) \<noteq> None"
    by (simp add: configured_fields DecodeString_empty)
  have a: "''Accept'' \<notin> dom (Headers (t_after
             (RoundTrip (configured signed_config) get_assets 1700000000 [] [])))"
    using RoundTrip_delegates_once [OF h, of get_assets 1700000000 "[]" "[]"]
    by (simp add: configured_fields signed_config_def)
  show ?thesis
    using h a RoundTrip_delegates_once [OF h, of get_assets 1700000000 "[]" "[]"]
    by (simp add: configured_fields recorder_def get_assets_def)
qed

text \<open>
  C8. When the call does not panic, every entry of the transport's header map, as the
  copy loop finds it, is on the outgoing request with the transport's value, whatever
  the caller had put under that name. For the names configured at construction that
  value is the configured one (in signing mode the timestamp and signature names carry
  the values of this send). In particular the request leaves a configured transport
  with the configured API key under \<^verbatim>\<open>X-Detectify-Key\<close>.
\<close>

theorem static_headers_take_precedence:
  assumes "signature t = [] \<or> DecodeString (secret t) \<noteq> None"
  shows "(\<forall>k v. Headers (t_after (RoundTrip t req now out net)) k = Some v \<longrightarrow>
            Header (req_after (RoundTrip t req now out net)) k = Some v)
         \<and> (\<forall>k v. Headers t k = Some v
                \<and> (signature t = []
                    \<or> (k \<noteq> ''X-Detectify-Timestamp'' \<and> k \<noteq> ''X-Detectify-Signature'')) \<longrightarrow>
              Header (req_after (RoundTrip t req now out net)) k = Some v)
         \<and> (Configure rt (Some data) = Some t \<longrightarrow>
              Header (req_after (RoundTrip t req now out net)) ''X-Detectify-Key'' =
                Some [ValueString (APIKey data)])"
proof -
  let ?o = "RoundTrip t req now out net"
  have copy: "\<forall>k v. Headers (t_after ?o) k = Some v \<longrightarrow> Header (req_after ?o) k = Some v"
  proof (cases "signature t = []")
    case True
    then show ?thesis by (simp add: RoundTrip_unsigned map_add_def)
  next
    case False
    with assms obtain key where key: "DecodeString (secret t) = Some key" by auto
    show ?thesis by (simp add: RoundTrip_signed [OF False key] Let_def map_add_def)
  qed
  have kept: "Headers (t_after ?o) k = Headers t k"
    if "signature t = [] \<or> (k \<noteq> ''X-Detectify-Timestamp'' \<and> k \<noteq> ''X-Detectify-Signature'')"
    for k
  proof (cases "signature t = []")
    case True
    then show ?thesis by (simp add: RoundTrip_unsigned)
  next
    case False
    with assms obtain key where key: "DecodeString (secret t) = Some key" by auto
    from that False show ?thesis by (simp add: RoundTrip_signed [OF False key] Let_def)
  qed
  have configured_names: "\<forall>k v. Headers t k = Some v
                \<and> (signature t = []
                    \<or> (k \<noteq> ''X-Detectify-Timestamp'' \<and> k \<noteq> ''X-Detectify-Signature'')) \<longrightarrow>
              Header (req_after ?o) k = Some v"
  proof (intro allI impI)
    fix k v
    assume a: "Headers t k = Some v
                \<and> (signature t = []
                    \<or> (k \<noteq> ''X-Detectify-Timestamp'' \<and> k \<noteq> ''X-Detectify-Signature''))"
    then have "Headers (t_after ?o) k = Some v" using kept [of k] by simp
    with copy show "Header (req_after ?o) k = Some v" by blast
  qed
  have key_header: "Configure rt (Some data) = Some t \<longrightarrow>
      Header (req_after ?o) ''X-Detectify-Key'' = Some [ValueString (APIKey data)]"
  proof (rule impI)
    assume "Configure rt (Some data) = Some t"
    then have "Headers t ''X-Detectify-Key'' = Some [ValueString (APIKey data)]"
      by (simp add: Configure_Some)
    moreover have "''X-Detectify-Key'' \<noteq> ''X-Detectify-Timestamp''
        \<and> ''X-Detectify-Key'' \<noteq> ''X-Detectify-Signature''"
      by simp
    ultimately show "Header (req_after ?o) ''X-Detectify-Key'' = Some [ValueString (APIKey data)]"
      using configured_names by blast
  qed
  show ?thesis
    by (rule conjI [OF copy conjI [OF configured_names key_header]])
qed

theorem static_headers_take_precedence_witness:
  "(signature (configured unsigned_config) = []
      \<or> DecodeString (secret (configured unsigned_config)) \<noteq> None)
   \<and> Header caller_request ''X-Detectify-Key'' = Some [''caller'']
   \<and> Headers (configured unsigned_config) ''X-Detectify-Key'' = Some [''abc123'']
   \<and> Header (req_after (RoundTrip (configured unsigned_config) caller_request 1700000000 [] []))
       ''X-Detectify-Key'' = Some [''abc123'']"
proof -
  have h: "signature (configured unsigned_config) = []
      \<or> DecodeString (secret (configured unsigned_config)) \<noteq> None"
    by (simp add: configured_fields unsigned_config_def)
  have k: "Headers (configured unsigned_config) ''X-Detectify-Key'' = Some [''abc123'']"
    by (simp add: configured_fields unsigned_config_def)
  have c: "Header caller_request ''X-Detectify-Key'' = Some [''caller'']"
    by (simp add: caller_request_def)
  from static_headers_take_precedence [OF h, of caller_request 1700000000 "[]" "[]"] k
  have "Header (req_after (RoundTrip (configured unsigned_config) caller_request 1700000000 [] []))
       ''X-Detectify-Key'' = Some [''abc123'']"
    by (simp add: configured_fields unsigned_config_def)
  with h k c show ?thesis by simp
qed

text \<open>
  C6, as the code has it. A send never writes the transport's wrapped transport, API
  key, secret or signature value, nor any entry of its header map other than the
  timestamp and the signature; of the request it writes only the headers. With signing
  off the transport is left exactly as it was and nothing is printed. A signed send
  that does not panic stores this send's timestamp and signature in the transport's own
  header map, where they stay after the call, and prints the signed text and a line
  feed on the standard output.
\<close>

theorem RoundTrip_frame:
  "Transport (t_after (RoundTrip t req now out net)) = Transport t
   \<and> apiKey (t_after (RoundTrip t req now out net)) = apiKey t
   \<and> secret (t_after (RoundTrip t req now out net)) = secret t
   \<and> signature (t_after (RoundTrip t req now out net)) = signature t
   \<and> (\<forall>k. k \<noteq> ''X-Detectify-Timestamp'' \<and> k \<noteq> ''X-Detectify-Signature'' \<longrightarrow>
          Headers (t_after (RoundTrip t req now out net)) k = Headers t k)
   \<and> Method (req_after (RoundTrip t req now out net)) = Method req
   \<and> URL (req_after (RoundTrip t req now out net)) = URL req
   \<and> Body (req_after (RoundTrip t req now out net)) = Body req
   \<and> (signature t = [] \<longrightarrow>
        t_after (RoundTrip t req now out net) = t
        \<and> stdout_after (RoundTrip t req now out net) = out)
   \<and> (signature t \<noteq> [] \<and> DecodeString (secret t) \<noteq> None \<longrightarrow>
        Headers (t_after (RoundTrip t req now out net)) ''X-Detectify-Timestamp'' =
          Some [FormatInt now]
        \<and> Headers (t_after (RoundTrip t req now out net)) ''X-Detectify-Signature'' \<noteq> None
        \<and> stdout_after (RoundTrip t req now out net) =
            out @ Sprintf_value req (apiKey t) now @ [CHR 0x0A])"
proof (cases "signature t = []")
  case True
  then show ?thesis by (simp add: RoundTrip_unsigned)
next
  case False
  show ?thesis
  proof (cases "DecodeString (secret t)")
    case None
    with False show ?thesis by (simp add: RoundTrip_panic)
  next
    case (Some key)
    with False show ?thesis by (simp add: RoundTrip_signed [OF False Some] Let_def)
  qed
qed

theorem RoundTrip_frame_witness:
  "signature (configured unsigned_config) = []
   \<and> t_after (RoundTrip (configured unsigned_config) get_assets 1700000000 [] []) =
       configured unsigned_config
   \<and> signature (configured signed_config) \<noteq> []
   \<and> DecodeString (secret (configured signed_config)) \<noteq> None
   \<and> stdout_after (RoundTrip (configured signed_config) get_assets 1700000000 [] []) =
       ''GET;/v2/assets;;1700000000;%!s(<nil>)'' @ [CHR 0x0A]"
proof -
  have u: "signature (configured unsigned_config) = []"
    by (simp add: configured_fields unsigned_config_def)
  have s: "signature (configured signed_config) \<noteq> []"
    by (simp add: configured_fields signed_config_def)
  have d: "DecodeString (secret (configured signed_config)) \<noteq> None"
    by (simp add: configured_fields DecodeString_empty)
  show ?thesis
    using u s d
      RoundTrip_frame [of "configured unsigned_config" get_assets 1700000000 "[]" "[]"]
      RoundTrip_frame [of "configured signed_config" get_assets 1700000000 "[]" "[]"]
    by (simp add: configured_fields Sprintf_value_get_assets)
qed

text \<open>
  The claim C6 as it was stated fails at a configured transport in signing mode: its
  header map has no timestamp before the send and holds the send's timestamp after
  it, and the send has printed.
\<close>

theorem transport_headers_written_by_send:
  "Headers (configured signed_config) ''X-Detectify-Timestamp'' = None
   \<and> Headers (t_after (RoundTrip (configured signed_config) get_assets 1700000000 [] []))
       ''X-Detectify-Timestamp'' = Some [''1700000000'']
   \<and> stdout_after (RoundTrip (configured signed_config) get_assets 1700000000 [] []) \<noteq> []"
proof -
  have s: "signature (configured signed_config) \<noteq> []"
    by (simp add: configured_fields signed_config_def)
  have d: "DecodeString (secret (configured signed_config)) = Some []"
    by (simp add: configured_fields DecodeString_empty)
  show ?thesis
    by (simp add: RoundTrip_signed [OF s d] Let_def configured_fields FormatInt_1700000000)
qed

text \<open>
  C4, as the code has it. A transport built by \<^verbatim>\<open>Configure\<close> never panics, and the
  request it hands to the wrapped transport always carries \<^verbatim>\<open>X-Detectify-Key\<close> with
  the configured API key. With a signature value configured the request carries
  \<^verbatim>\<open>X-Detectify-Timestamp\<close>, the time of the send in decimal, and
  \<^verbatim>\<open>X-Detectify-Signature\<close>. With none configured the transport leaves those two
  names as the caller had them: they are absent from the outgoing request exactly when
  the caller had not set them. So for a request that does not already carry them, the
  two headers are present if and only if signing is configured.
\<close>

theorem signing_headers_iff_signing_mode:
  assumes "Configure rt (Some data) = Some t"
  shows "ret (RoundTrip t req now out net) =
           Inr (fst (rt (req_after (RoundTrip t req now out net)) net))
         \<and> Header (req_after (RoundTrip t req now out net)) ''X-Detectify-Key'' =
             Some [ValueString (APIKey data)]
         \<and> (ValueString (Signature data) \<noteq> [] \<longrightarrow>
              Header (req_after (RoundTrip t req now out net)) ''X-Detectify-Timestamp'' =
                Some [FormatInt now]
              \<and> Header (req_after (RoundTrip t req now out net)) ''X-Detectify-Signature''
                  \<noteq> None)
         \<and> (ValueString (Signature data) = [] \<longrightarrow>
              Header (req_after (RoundTrip t req now out net)) ''X-Detectify-Timestamp'' =
                Header req ''X-Detectify-Timestamp''
              \<and> Header (req_after (RoundTrip t req now out net)) ''X-Detectify-Signature'' =
                  Header req ''X-Detectify-Signature'')
         \<and> (Header req ''X-Detectify-Timestamp'' = None
              \<and> Header req ''X-Detectify-Signature'' = None \<longrightarrow>
              ((Header (req_after (RoundTrip t req now out net)) ''X-Detectify-Timestamp''
                  \<noteq> None
                \<and> Header (req_after (RoundTrip t req now out net)) ''X-Detectify-Signature''
                  \<noteq> None)
               \<longleftrightarrow> ValueString (Signature data) \<noteq> [])
              \<and> ((Header (req_after (RoundTrip t req now out net)) ''X-Detectify-Timestamp''
                  = None
                \<and> Header (req_after (RoundTrip t req now out net)) ''X-Detectify-Signature''
                  = None)
               \<longleftrightarrow> ValueString (Signature data) = []))"
proof -
  let ?o = "RoundTrip t req now out net"
  from assms have f: "Transport t = rt" "secret t = []"
    "signature t = ValueString (Signature data)"
    "Headers t = [''X-Detectify-Key'' \<mapsto> [ValueString (APIKey data)]]"
    by (simp_all add: Configure_Some)
  have d: "DecodeString (secret t) = Some []" by (simp add: f DecodeString_empty)
  show ?thesis
  proof (cases "signature t = []")
    case True
    show ?thesis
      using True f by (simp add: RoundTrip_unsigned map_add_def)
  next
    case False
    show ?thesis
      using False f by (simp add: RoundTrip_signed [OF False d] Let_def map_add_def)
  qed
qed

theorem signing_headers_iff_signing_mode_witness:
  "Configure recorder (Some signed_config) = Some (configured signed_config)
   \<and> Header (req_after (RoundTrip (configured signed_config) get_assets 1700000000 [] []))
       ''X-Detectify-Key'' = Some [''abc123'']
   \<and> Header (req_after (RoundTrip (configured signed_config) get_assets 1700000000 [] []))
       ''X-Detectify-Timestamp'' = Some [''1700000000'']
   \<and> Header (req_after (RoundTrip (configured signed_config) get_assets 1700000000 [] []))
       ''X-Detectify-Signature'' \<noteq> None
   \<and> Configure recorder (Some unsigned_config) = Some (configured unsigned_config)
   \<and> Header (req_after (RoundTrip (configured unsigned_config) get_assets 1700000000 [] []))
       ''X-Detectify-Key'' = Some [''abc123'']
   \<and> Header (req_after (RoundTrip (configured unsigned_config) get_assets 1700000000 [] []))
       ''X-Detectify-Timestamp'' = None
   \<and> Header (req_after (RoundTrip (configured unsigned_config) get_assets 1700000000 [] []))
       ''X-Detectify-Signature'' = None"
  using
    signing_headers_iff_signing_mode
      [OF Configure_configured [of signed_config], of get_assets 1700000000 "[]" "[]"]
    signing_headers_iff_signing_mode
      [OF Configure_configured [of unsigned_config], of get_assets 1700000000 "[]" "[]"]
  by (simp add: Configure_configured signed_config_def unsigned_config_def get_assets_def
      FormatInt_1700000000)

text \<open>
  The claim C4 as it was stated fails for a request whose caller has set the signature
  header: with signing off the request reaches the wrapped transport, once, with that
  header still on it.
\<close>

theorem caller_set_signature_header_passes_unsigned:
  "signature (configured unsigned_config) = []
   \<and> Header (req_after (RoundTrip (configured unsigned_config) caller_request 1700000000 [] []))
       ''X-Detectify-Signature'' = Some [''forged'']
   \<and> net_after (RoundTrip (configured unsigned_config) caller_request 1700000000 [] []) =
       [req_after (RoundTrip (configured unsigned_config) caller_request 1700000000 [] [])]"
proof -
  have u: "signature (configured unsigned_config) = []"
    by (simp add: configured_fields unsigned_config_def)
  have k: "Headers (configured unsigned_config) = [''X-Detectify-Key'' \<mapsto> [''abc123'']]"
    by (simp add: configured_fields unsigned_config_def)
  have r: "Transport (configured unsigned_config) = recorder"
    by (simp add: configured_fields)
  show ?thesis
    unfolding RoundTrip_unsigned [OF u]
    by (simp add: u k r caller_request_def recorder_def map_add_def)
qed

text \<open>
  C2, the code at a configured transport in signing mode. \<^verbatim>\<open>Configure\<close> stores the
  signature value in the field \<^verbatim>\<open>signature\<close> and leaves \<^verbatim>\<open>apiKey\<close> and
  \<^verbatim>\<open>secret\<close> empty, and \<^verbatim>\<open>RoundTrip\<close> passes those two empty fields to
  \<^verbatim>\<open>CalculateSignature\<close>. So the text that is signed (and printed) has an empty API key
  field, and the signature header is the HMAC under the empty key: neither depends on
  the configured API key or on the configured signature value.
\<close>

theorem configured_signature_uses_empty_credentials:
  assumes "Configure rt (Some data) = Some t" and "ValueString (Signature data) \<noteq> []"
  shows "apiKey t = [] \<and> secret t = []
         \<and> stdout_after (RoundTrip t req now out net) =
             out @ Sprintf_value req [] now @ [CHR 0x0A]
         \<and> Header (req_after (RoundTrip t req now out net)) ''X-Detectify-Signature'' =
             Some [EncodeToString (hmac_sha256 [] (bytes (Sprintf_value req [] now)))]"
proof -
  from assms have f: "apiKey t = []" "secret t = []" "signature t \<noteq> []"
    by (simp_all add: Configure_Some)
  have d: "DecodeString (secret t) = Some []" by (simp add: f DecodeString_empty)
  show ?thesis
    using f by (simp add: RoundTrip_signed [OF f(3) d] Let_def map_add_def)
qed

theorem configured_signature_uses_empty_credentials_witness:
  "Configure recorder (Some signed_config) = Some (configured signed_config)
   \<and> ValueString (Signature signed_config) = ''c2VjcmV0''
   \<and> ValueString (APIKey signed_config) = ''abc123''
   \<and> stdout_after (RoundTrip (configured signed_config) get_assets 1700000000 [] []) =
       ''GET;/v2/assets;;1700000000;%!s(<nil>)'' @ [CHR 0x0A]
   \<and> Header (req_after (RoundTrip (configured signed_config) get_assets 1700000000 [] []))
       ''X-Detectify-Signature'' =
       Some [EncodeToString
               (hmac_sha256 [] (bytes ''GET;/v2/assets;;1700000000;%!s(<nil>)''))]"
proof -
  have s: "ValueString (Signature signed_config) \<noteq> []" by (simp add: signed_config_def)
  show ?thesis
    using configured_signature_uses_empty_credentials
      [OF Configure_configured [of signed_config] s, of get_assets 1700000000 "[]" "[]"]
    by (simp add: Configure_configured signed_config_def Sprintf_value_get_assets)
qed

text \<open>
  C9. The only output of the layer is line 147, which prints the text that is signed.
  That text is put together from the request's method, URL path and body text, the
  API key argument and the timestamp, before the HMAC is taken: the secret is not
  among its parts and the signature does not exist yet. What is printed is therefore
  the same for any two secrets that decode, and nothing is printed for a secret that
  does not; through \<^verbatim>\<open>RoundTrip\<close> it is the same for any two transports that differ
  only in their secret and in their (non-empty) signature value. The property is one of
  what the output is computed from: a caller who puts the secret's own text into the
  path or the API key has it printed as part of that field.
\<close>

theorem debug_output_independent_of_secret:
  "snd (CalculateSignature req apikey secretKey timestamp out) =
     (if DecodeString secretKey = None then out
      else out @ Sprintf_value req apikey timestamp @ [CHR 0x0A])
   \<and> stdout_after (RoundTrip t req now out net) =
       (if signature t = [] \<or> DecodeString (secret t) = None then out
        else out @ Sprintf_value req (apiKey t) now @ [CHR 0x0A])
   \<and> (DecodeString s1 \<noteq> None \<and> DecodeString s2 \<noteq> None \<longrightarrow>
        snd (CalculateSignature req apikey s1 timestamp out) =
          snd (CalculateSignature req apikey s2 timestamp out)
        \<and> (g1 \<noteq> [] \<and> g2 \<noteq> [] \<longrightarrow>
             stdout_after (RoundTrip (t\<lparr>secret := s1, signature := g1\<rparr>) req now out net) =
               stdout_after (RoundTrip (t\<lparr>secret := s2, signature := g2\<rparr>) req now out net)))"
proof -
  have c: "snd (CalculateSignature r a s ts out) =
     (if DecodeString s = None then out else out @ Sprintf_value r a ts @ [CHR 0x0A])"
    for r a s ts
    by (cases "DecodeString s") (simp_all add: CalculateSignature_None CalculateSignature_Some)
  have r: "stdout_after (RoundTrip u req now out net) =
       (if signature u = [] \<or> DecodeString (secret u) = None then out
        else out @ Sprintf_value req (apiKey u) now @ [CHR 0x0A])"
    for u :: "('a, 'b) transport"
  proof (cases "signature u = []")
    case True
    then show ?thesis by (simp add: RoundTrip_unsigned)
  next
    case False
    show ?thesis
    proof (cases "DecodeString (secret u)")
      case None
      with False show ?thesis by (simp add: RoundTrip_panic)
    next
      case (Some key)
      with False show ?thesis by (simp add: RoundTrip_signed [OF False Some] Let_def)
    qed
  qed
  show ?thesis
    by (simp add: c r)
qed

theorem debug_output_independent_of_secret_witness:
  "DecodeString ''c2VjcmV0'' \<noteq> None \<and> DecodeString [] \<noteq> None
   \<and> snd (CalculateSignature get_assets ''abc123'' ''c2VjcmV0'' 1700000000 []) =
       ''GET;/v2/assets;abc123;1700000000;%!s(<nil>)'' @ [CHR 0x0A]
   \<and> snd (CalculateSignature get_assets ''abc123'' [] 1700000000 []) =
       ''GET;/v2/assets;abc123;1700000000;%!s(<nil>)'' @ [CHR 0x0A]
   \<and> snd (CalculateSignature get_assets ''abc123'' ''not-base64!!'' 1700000000 []) = []"
proof -
  note w = debug_output_independent_of_secret
    [where req = get_assets and apikey = "''abc123''" and timestamp = 1700000000
       and out = "[]", THEN conjunct1]
  show ?thesis
    using w [of "''c2VjcmV0''"] w [of "[]"] w [of "''not-base64!!''"]
    by (simp add: DecodeString_secret DecodeString_empty DecodeString_not_base64
        Sprintf_value_get_assets)
qed

section \<open>The signed text\<close>

lemma Sprintf_value_fields:
  "Sprintf_value req ak ts =
     Method req @ CHR '';'' # Path (URL req) @ CHR '';'' # ak @ CHR '';'' # FormatInt ts
       @ CHR '';'' # Sprint_s (Body req)"
  by (simp add: Sprintf_value_def)

lemma Sprintf_value_inj:
  assumes eq: "Sprintf_value req ak ts = Sprintf_value req' ak' ts'"
    and m: "CHR '';'' \<notin> set (Method req)" "CHR '';'' \<notin> set (Method req')"
    and p: "CHR '';'' \<notin> set (Path (URL req))" "CHR '';'' \<notin> set (Path (URL req'))"
    and k: "CHR '';'' \<notin> set ak" "CHR '';'' \<notin> set ak'"
  shows "Method req = Method req' \<and> Path (URL req) = Path (URL req') \<and> ak = ak'
         \<and> ts = ts' \<and> Sprint_s (Body req) = Sprint_s (Body req')"
proof -
  from eq have e0:
    "Method req @ CHR '';'' # (Path (URL req) @ CHR '';'' # ak @ CHR '';'' # FormatInt ts
       @ CHR '';'' # Sprint_s (Body req)) =
     Method req' @ CHR '';'' # (Path (URL req') @ CHR '';'' # ak' @ CHR '';'' # FormatInt ts'
       @ CHR '';'' # Sprint_s (Body req'))"
    by (simp add: Sprintf_value_fields)
  from split_at_delimiter [OF m e0] have m': "Method req = Method req'"
    and e1: "Path (URL req) @ CHR '';'' # (ak @ CHR '';'' # FormatInt ts
       @ CHR '';'' # Sprint_s (Body req)) =
     Path (URL req') @ CHR '';'' # (ak' @ CHR '';'' # FormatInt ts'
       @ CHR '';'' # Sprint_s (Body req'))"
    by simp_all
  from split_at_delimiter [OF p e1] have p': "Path (URL req) = Path (URL req')"
    and e2: "ak @ CHR '';'' # (FormatInt ts @ CHR '';'' # Sprint_s (Body req)) =
     ak' @ CHR '';'' # (FormatInt ts' @ CHR '';'' # Sprint_s (Body req'))"
    by simp_all
  from split_at_delimiter [OF k e2] have k': "ak = ak'"
    and e3: "FormatInt ts @ CHR '';'' # Sprint_s (Body req) =
     FormatInt ts' @ CHR '';'' # Sprint_s (Body req')"
    by simp_all
  from split_at_delimiter [OF semicolon_notin_FormatInt semicolon_notin_FormatInt e3]
  have "FormatInt ts = FormatInt ts'" and b': "Sprint_s (Body req) = Sprint_s (Body req')"
    by simp_all
  then have "ts = ts'" by (simp add: FormatInt_inj)
  with m' p' k' b' show ?thesis by simp
qed

text \<open>
  C5, as the code has it. The text that is signed tells two calls apart whenever they
  differ in exactly one of method, path, API key, timestamp and body text, and
  whenever their methods, paths and API keys hold no semicolon. The fields are joined
  without any escaping, so a semicolon inside one of those three fields can move the
  boundary between fields. That two different texts get different signatures is the
  collision resistance of HMAC-SHA256, which is no property of this program.
\<close>

theorem signed_text_distinguishes_calls:
  "(Method req \<noteq> Method req' \<and> Path (URL req) = Path (URL req') \<and> ak = ak' \<and> ts = ts'
      \<and> Sprint_s (Body req) = Sprint_s (Body req') \<longrightarrow>
      Sprintf_value req ak ts \<noteq> Sprintf_value req' ak' ts')
   \<and> (Method req = Method req' \<and> Path (URL req) \<noteq> Path (URL req') \<and> ak = ak' \<and> ts = ts'
      \<and> Sprint_s (Body req) = Sprint_s (Body req') \<longrightarrow>
      Sprintf_value req ak ts \<noteq> Sprintf_value req' ak' ts')
   \<and> (Method req = Method req' \<and> Path (URL req) = Path (URL req') \<and> ak \<noteq> ak' \<and> ts = ts'
      \<and> Sprint_s (Body req) = Sprint_s (Body req') \<longrightarrow>
      Sprintf_value req ak ts \<noteq> Sprintf_value req' ak' ts')
   \<and> (Method req = Method req' \<and> Path (URL req) = Path (URL req') \<and> ak = ak' \<and> ts \<noteq> ts'
      \<and> Sprint_s (Body req) = Sprint_s (Body req') \<longrightarrow>
      Sprintf_value req ak ts \<noteq> Sprintf_value req' ak' ts')
   \<and> (Method req = Method req' \<and> Path (URL req) = Path (URL req') \<and> ak = ak' \<and> ts = ts'
      \<and> Sprint_s (Body req) \<noteq> Sprint_s (Body req') \<longrightarrow>
      Sprintf_value req ak ts \<noteq> Sprintf_value req' ak' ts')
   \<and> (CHR '';'' \<notin> set (Method req) \<union> set (Path (URL req)) \<union> set ak
                    \<union> set (Method req') \<union> set (Path (URL req')) \<union> set ak'
      \<and> (Method req, Path (URL req), ak, ts, Sprint_s (Body req))
          \<noteq> (Method req', Path (URL req'), ak', ts', Sprint_s (Body req')) \<longrightarrow>
      Sprintf_value req ak ts \<noteq> Sprintf_value req' ak' ts')"
proof (intro conjI impI)
  assume "Method req \<noteq> Method req' \<and> Path (URL req) = Path (URL req') \<and> ak = ak' \<and> ts = ts'
      \<and> Sprint_s (Body req) = Sprint_s (Body req')"
  then show "Sprintf_value req ak ts \<noteq> Sprintf_value req' ak' ts'"
    by (simp add: Sprintf_value_def)
next
  assume "Method req = Method req' \<and> Path (URL req) \<noteq> Path (URL req') \<and> ak = ak' \<and> ts = ts'
      \<and> Sprint_s (Body req) = Sprint_s (Body req')"
  then show "Sprintf_value req ak ts \<noteq> Sprintf_value req' ak' ts'"
    by (simp add: Sprintf_value_def)
next
  assume "Method req = Method req' \<and> Path (URL req) = Path (URL req') \<and> ak \<noteq> ak' \<and> ts = ts'
      \<and> Sprint_s (Body req) = Sprint_s (Body req')"
  then show "Sprintf_value req ak ts \<noteq> Sprintf_value req' ak' ts'"
    by (simp add: Sprintf_value_def)
next
  assume a: "Method req = Method req' \<and> Path (URL req) = Path (URL req') \<and> ak = ak' \<and> ts \<noteq> ts'
      \<and> Sprint_s (Body req) = Sprint_s (Body req')"
  then have "FormatInt ts \<noteq> FormatInt ts'" using FormatInt_inj by blast
  with a show "Sprintf_value req ak ts \<noteq> Sprintf_value req' ak' ts'"
    by (simp add: Sprintf_value_def)
next
  assume "Method req = Method req' \<and> Path (URL req) = Path (URL req') \<and> ak = ak' \<and> ts = ts'
      \<and> Sprint_s (Body req) \<noteq> Sprint_s (Body req')"
  then show "Sprintf_value req ak ts \<noteq> Sprintf_value req' ak' ts'"
    by (simp add: Sprintf_value_def)
next
  assume a: "CHR '';'' \<notin> set (Method req) \<union> set (Path (URL req)) \<union> set ak
                    \<union> set (Method req') \<union> set (Path (URL req')) \<union> set ak'
      \<and> (Method req, Path (URL req), ak, ts, Sprint_s (Body req))
          \<noteq> (Method req', Path (URL req'), ak', ts', Sprint_s (Body req'))"
  show "Sprintf_value req ak ts \<noteq> Sprintf_value req' ak' ts'"
  proof
    assume "Sprintf_value req ak ts = Sprintf_value req' ak' ts'"
    from Sprintf_value_inj [OF this] a show False by simp
  qed
qed

theorem signed_text_distinguishes_calls_witness:
  "Method (with_method ''GET'') \<noteq> Method (with_method ''POST'')
   \<and> Path (URL (with_method ''GET'')) = Path (URL (with_method ''POST''))
   \<and> Sprint_s (Body (with_method ''GET'')) = Sprint_s (Body (with_method ''POST''))
   \<and> Sprintf_value (with_method ''GET'') ''abc123'' 1700000000
       \<noteq> Sprintf_value (with_method ''POST'') ''abc123'' 1700000000
   \<and> Sprintf_value get_assets ''abc123'' 1700000000
       \<noteq> Sprintf_value get_assets ''abc123'' 1700000001
   \<and> CHR '';'' \<notin> set (Method (with_path ''/a'')) \<union> set (Path (URL (with_path ''/a'')))
        \<union> set ''abc123'' \<union> set (Method (with_path ''/b''))
        \<union> set (Path (URL (with_path ''/b''))) \<union> set ''abc124''
   \<and> Sprintf_value (with_path ''/a'') ''abc123'' 1700000000
       \<noteq> Sprintf_value (with_path ''/b'') ''abc124'' 1700000001"
proof -
  note w1 = signed_text_distinguishes_calls
    [of "with_method ''GET''" "with_method ''POST''" "''abc123''" "''abc123''"
        1700000000 1700000000, THEN conjunct1]
  note w4 = signed_text_distinguishes_calls
    [of get_assets get_assets "''abc123''" "''abc123''" 1700000000 1700000001,
     THEN conjunct2, THEN conjunct2, THEN conjunct2, THEN conjunct1]
  note w6 = signed_text_distinguishes_calls
    [of "with_path ''/a''" "with_path ''/b''" "''abc123''" "''abc124''"
        1700000000 1700000001,
     THEN conjunct2, THEN conjunct2, THEN conjunct2, THEN conjunct2, THEN conjunct2]
  have s: "CHR '';'' \<notin> set (Method (with_path ''/a'')) \<union> set (Path (URL (with_path ''/a'')))
        \<union> set ''abc123'' \<union> set (Method (with_path ''/b''))
        \<union> set (Path (URL (with_path ''/b''))) \<union> set ''abc124''"
    by (simp add: with_path_def get_assets_def)
  have f: "Method (with_method ''GET'') \<noteq> Method (with_method ''POST'')"
    "Path (URL (with_method ''GET'')) = Path (URL (with_method ''POST''))"
    "Sprint_s (Body (with_method ''GET'')) = Sprint_s (Body (with_method ''POST''))"
    by (simp_all add: with_method_def)
  from w1 f have 1: "Sprintf_value (with_method ''GET'') ''abc123'' 1700000000
       \<noteq> Sprintf_value (with_method ''POST'') ''abc123'' 1700000000" by simp
  from w4 have 4: "Sprintf_value get_assets ''abc123'' 1700000000
       \<noteq> Sprintf_value get_assets ''abc123'' 1700000001" by simp
  from w6 s have 6: "Sprintf_value (with_path ''/a'') ''abc123'' 1700000000
       \<noteq> Sprintf_value (with_path ''/b'') ''abc124'' 1700000001" by simp
  from f s 1 4 6 show ?thesis by blast
qed

text \<open>
  The claim C5 as it was stated fails where a semicolon stands inside a field: the
  path \<^verbatim>\<open>/a;b\<close> with the API key \<^verbatim>\<open>c\<close>, and the path \<^verbatim>\<open>/a\<close> with the API
  key \<^verbatim>\<open>b;c\<close>, are signed as the same text and get the same signature.
\<close>

theorem semicolon_moves_field_boundary:
  "(Method (with_path ''/a;b''), Path (URL (with_path ''/a;b'')), ''c'')
     \<noteq> (Method (with_path ''/a''), Path (URL (with_path ''/a'')), ''b;c'')
   \<and> Sprintf_value (with_path ''/a;b'') ''c'' 1700000000 =
       Sprintf_value (with_path ''/a'') ''b;c'' 1700000000
   \<and> CalculateSignature (with_path ''/a;b'') ''c'' ''c2VjcmV0'' 1700000000 [] =
       CalculateSignature (with_path ''/a'') ''b;c'' ''c2VjcmV0'' 1700000000 []"
proof -
  have e: "Sprintf_value (with_path ''/a;b'') ''c'' 1700000000 =
       Sprintf_value (with_path ''/a'') ''b;c'' 1700000000"
    by (simp add: Sprintf_value_def with_path_def)
  show ?thesis
    by (simp add: CalculateSignature_Some [OF DecodeString_secret] e)
qed

end
